theory Spec2Isabelle
  imports Main "HOL-Library.AList"
begin

section \<open>JavaScript values\<close>

text \<open>
  The values that flow through the client: what \<^verbatim>\<open>response.json()\<close> yields, what is
  stored in \<^verbatim>\<open>this.token\<close>, what a caller passes as \<^verbatim>\<open>options.data\<close>. Numbers are
  integers (timestamps in milliseconds, durations in seconds); an object is the list of
  its own properties, each name once. Nothing in such a value is callable.
\<close>

datatype jsval =
    JUndefined
  | JNull
  | JBool bool
  | JNum int
  | JStr string
  | JArr "jsval list"
  | JObj "(string \<times> jsval) list"

text \<open>Truthiness, as \<^verbatim>\<open>!x\<close>, \<^verbatim>\<open>x && y\<close> and \<^verbatim>\<open>x || y\<close> test it.\<close>

fun truthy :: "jsval \<Rightarrow> bool" where
  "truthy JUndefined = False"
| "truthy JNull = False"
| "truthy (JBool b) = b"
| "truthy (JNum n) = (n \<noteq> 0)"
| "truthy (JStr s) = (s \<noteq> [])"
| "truthy (JArr xs) = True"
| "truthy (JObj ps) = True"

text \<open>Decimal digits of a number, as a template literal prints it.\<close>

fun string_of_nat :: "nat \<Rightarrow> string" where
  "string_of_nat n =
     (if n < 10 then [''0123456789'' ! n]
      else string_of_nat (n div 10) @ [''0123456789'' ! (n mod 10)])"

declare string_of_nat.simps [simp del]

definition string_of_int :: "int \<Rightarrow> string" where
  "string_of_int i =
     (if i < 0 then CHR ''-'' # string_of_nat (nat (- i)) else string_of_nat (nat i))"

fun join :: "string list \<Rightarrow> string" where
  "join [] = []"
| "join [s] = s"
| "join (s # t # ts) = s @ CHR '','' # join (t # ts)"

text \<open>
  String conversion, as the template literal \<^verbatim>\<open>`Bearer ${token}`\<close> applies it. An array
  prints its elements separated by commas, with \<^verbatim>\<open>null\<close> and \<^verbatim>\<open>undefined\<close> elements
  empty; a plain object prints as \<^verbatim>\<open>[object Object]\<close>. The function gives the string
  JavaScript gives for numbers of magnitude below \<^verbatim>\<open>1e21\<close> (larger ones print with an
  exponent) and for values on which the conversion does not throw, which
  \<open>conversion_throws\<close> below decides.
\<close>

fun toString :: "jsval \<Rightarrow> string" where
  "toString JUndefined = ''undefined''"
| "toString JNull = ''null''"
| "toString (JBool b) = (if b then ''true'' else ''false'')"
| "toString (JNum n) = string_of_int n"
| "toString (JStr s) = s"
| "toString (JArr xs) =
     join (map (\<lambda>x. if x = JUndefined \<or> x = JNull then [] else toString x) xs)"
| "toString (JObj ps) = ''[object Object]''"

text \<open>\<^verbatim>\<open>s.startsWith(p)\<close> and \<^verbatim>\<open>s.includes(p)\<close> on strings.\<close>

fun startsWith :: "string \<Rightarrow> string \<Rightarrow> bool" where
  "startsWith s [] = True"
| "startsWith [] (p # ps) = False"
| "startsWith (c # cs) (p # ps) = (c = p \<and> startsWith cs ps)"

fun str_includes :: "string \<Rightarrow> string \<Rightarrow> bool" where
  "str_includes [] p = (p = [])"
| "str_includes (c # cs) p = (startsWith (c # cs) p \<or> str_includes cs p)"

section \<open>Errors\<close>

text \<open>
  Every failure of the client is a plain \<^verbatim>\<open>Error\<close> with a message; an awaited promise
  that rejects is the left injection of a sum. The failure categories are told apart by
  the message the client builds: the constructor's message, the prefix that the
  \<^verbatim>\<open>catch\<close> block of \<^verbatim>\<open>_getToken\<close> puts on whatever was thrown in its \<^verbatim>\<open>try\<close> block, and
  the prefix that the \<^verbatim>\<open>catch\<close> block of \<^verbatim>\<open>request\<close> puts on whatever was thrown in its
  own: a failing status, a body that does not decode and a network failure alike.
\<close>

datatype js_error = Error (message: string)

definition is_ConfigurationError :: "js_error \<Rightarrow> bool" where
  "is_ConfigurationError e = (message e = ''Client ID and Client Secret are required'')"

definition is_AuthenticationError :: "js_error \<Rightarrow> bool" where
  "is_AuthenticationError e = startsWith (message e) ''Failed to get authentication token: ''"

definition is_request_failure :: "js_error \<Rightarrow> bool" where
  "is_request_failure e = startsWith (message e) ''API request failed: ''"

section \<open>Numbers and dates\<close>

text \<open>
  The result of an arithmetic operation: an integer, or \<^verbatim>\<open>NaN\<close>.
\<close>

datatype number = Finite int | NaN

fun num_times :: "number \<Rightarrow> number \<Rightarrow> number" where
  "num_times (Finite a) (Finite b) = Finite (a * b)"
| "num_times a b = NaN"

fun num_plus :: "number \<Rightarrow> number \<Rightarrow> number" where
  "num_plus (Finite a) (Finite b) = Finite (a + b)"
| "num_plus a b = NaN"

text \<open>
  Converting a value to a primitive calls its \<^verbatim>\<open>valueOf\<close> and \<^verbatim>\<open>toString\<close> methods.
  A parsed object inherits both, unless it has a property of that name of its own,
  which is then not callable and is skipped. The inherited \<^verbatim>\<open>valueOf\<close> returns the
  object itself, which is no primitive, so the conversion throws a \<^verbatim>\<open>TypeError\<close>
  exactly when the object has a \<^verbatim>\<open>toString\<close> property of its own. An array is
  converted through \<^verbatim>\<open>join\<close>, which converts its elements in turn.
\<close>

fun conversion_throws :: "jsval \<Rightarrow> bool" where
  "conversion_throws (JObj ps) = (''toString'' \<in> set (map fst ps))"
| "conversion_throws (JArr xs) = list_ex conversion_throws xs"
| "conversion_throws JUndefined = False"
| "conversion_throws JNull = False"
| "conversion_throws (JBool b) = False"
| "conversion_throws (JNum n) = False"
| "conversion_throws (JStr s) = False"

text \<open>
  Numeric conversion, as the operator \<^verbatim>\<open>*\<close> applies it to its operands. How the
  host reads a string as a number is not spelled out here: it is the parameter
  \<open>s2n\<close>. Objects and arrays are first converted to a string.
\<close>

fun to_number :: "(string \<Rightarrow> number) \<Rightarrow> jsval \<Rightarrow> js_error + number" where
  "to_number s2n JUndefined = Inr NaN"
| "to_number s2n JNull = Inr (Finite 0)"
| "to_number s2n (JBool b) = Inr (Finite (if b then 1 else 0))"
| "to_number s2n (JNum n) = Inr (Finite n)"
| "to_number s2n (JStr s) = Inr (s2n s)"
| "to_number s2n (JArr xs) =
     (if conversion_throws (JArr xs) then Inl (Error ''Cannot convert object to primitive value'')
      else Inr (s2n (toString (JArr xs))))"
| "to_number s2n (JObj ps) =
     (if conversion_throws (JObj ps) then Inl (Error ''Cannot convert object to primitive value'')
      else Inr (s2n (toString (JObj ps))))"

text \<open>
  A \<^verbatim>\<open>Date\<close> object: its time value in milliseconds, or an invalid date. \<^verbatim>\<open>new Date(v)\<close>
  is invalid when \<open>v\<close> is \<^verbatim>\<open>NaN\<close> or more than 8.64e15 milliseconds away from the
  epoch.
\<close>

datatype date = Date int | InvalidDate

fun new_Date :: "number \<Rightarrow> date" where
  "new_Date (Finite t) =
     (if \<bar>t\<bar> \<le> 8640000000000000 then Date t else InvalidDate)"
| "new_Date NaN = InvalidDate"

text \<open>
  \<^verbatim>\<open>new Date() < d\<close>, with \<open>now\<close> the time value of \<^verbatim>\<open>new Date()\<close>: the comparison of
  the two time values, false for an invalid date.
\<close>

fun before :: "int \<Rightarrow> date \<Rightarrow> bool" where
  "before now (Date t) = (now < t)"
| "before now InvalidDate = False"

section \<open>The client\<close>

text \<open>
  The configuration object handed to the constructor: a property that is absent is
  \<open>None\<close>.
\<close>

record config =
  cfg_clientId :: "string option"
  cfg_clientSecret :: "string option"
  cfg_baseUrl :: "string option"
  cfg_timeout :: "int option"
  cfg_debug :: "bool option"

text \<open>
  The instance fields of \<^verbatim>\<open>SonatelAPI\<close>. \<open>tokenExpiry\<close> is \<^verbatim>\<open>null\<close> (\<open>None\<close>) or a
  \<^verbatim>\<open>Date\<close>.
  \<^verbatim>\<open>_log\<close> writes to the console when \<open>debug\<close> is set and touches neither the fields
  nor any result, so the operations below leave it out.
\<close>

record client =
  clientId :: string
  clientSecret :: string
  baseUrl :: string
  timeout :: int
  debug :: bool
  token :: jsval
  tokenExpiry :: "date option"

text \<open>\<^verbatim>\<open>!s\<close> for an optional string property: absent or empty.\<close>

definition falsy_str :: "string option \<Rightarrow> bool" where
  "falsy_str s = (case s of None \<Rightarrow> True | Some v \<Rightarrow> v = [])"

definition SonatelAPI_constructor :: "config \<Rightarrow> js_error + client" where
  "SonatelAPI_constructor cfg =
     (if falsy_str (cfg_clientId cfg) \<or> falsy_str (cfg_clientSecret cfg)
      then Inl (Error ''Client ID and Client Secret are required'')
      else Inr \<lparr>
        clientId = the (cfg_clientId cfg),
        clientSecret = the (cfg_clientSecret cfg),
        baseUrl = (if falsy_str (cfg_baseUrl cfg) then ''https://api.orange-sonatel.com''
                   else the (cfg_baseUrl cfg)),
        timeout = (case cfg_timeout cfg of None \<Rightarrow> 10000
                   | Some t \<Rightarrow> if t = 0 then 10000 else t),
        debug = (case cfg_debug cfg of None \<Rightarrow> False | Some d \<Rightarrow> d),
        token = JNull,
        tokenExpiry = None \<rparr>)"

section \<open>The network\<close>

text \<open>
  A call of \<^verbatim>\<open>fetch\<close>: the address, the query parameters appended to it (after a
  \<^verbatim>\<open>?\<close>, when there are any), and the options object.
\<close>

datatype body = FormBody "(string \<times> string) list" | JsonBody jsval

record http_request =
  url :: string
  query :: "(string \<times> string) list"
  http_method :: string
  headers :: "(string \<times> string) list"
  req_body :: "body option"
  req_timeout :: int

text \<open>
  What the client reads of a \<^verbatim>\<open>Response\<close>: the status line, the content type header
  (\<open>None\<close> when \<^verbatim>\<open>headers.get\<close> returns \<^verbatim>\<open>null\<close>), and the outcome of awaiting
  \<^verbatim>\<open>json()\<close> and \<^verbatim>\<open>text()\<close>, each of which may reject with a message.
\<close>

record 'j response =
  status :: nat
  statusText :: string
  content_type :: "string option"
  json_body :: "string + 'j"
  text_body :: "string + string"

text \<open>\<^verbatim>\<open>response.ok\<close>: the status is in the range 200 to 299.\<close>

definition ok :: "'j response \<Rightarrow> bool" where
  "ok r = (200 \<le> status r \<and> status r \<le> 299)"

section \<open>Token acquisition\<close>

text \<open>
  \<^verbatim>\<open>data.access_token\<close> and \<^verbatim>\<open>data.expires_in\<close>: reading a property of \<^verbatim>\<open>null\<close> or
  \<^verbatim>\<open>undefined\<close> throws; an object gives the property of that name, \<^verbatim>\<open>undefined\<close> when
  it has none; any other value has no property of either name.
\<close>

definition get_prop :: "jsval \<Rightarrow> string \<Rightarrow> js_error + jsval" where
  "get_prop v k =
     (case v of
        JNull \<Rightarrow>
          Inl (Error (''Cannot read properties of null (reading '' @ CHR 0x27 # k
                      @ CHR 0x27 # '')''))
      | JUndefined \<Rightarrow>
          Inl (Error (''Cannot read properties of undefined (reading '' @ CHR 0x27 # k
                      @ CHR 0x27 # '')''))
      | JObj ps \<Rightarrow> Inr (case map_of ps k of None \<Rightarrow> JUndefined | Some x \<Rightarrow> x)
      | _ \<Rightarrow> Inr JUndefined)"

text \<open>
  What the outside world supplies during one call of \<^verbatim>\<open>_getToken\<close>: the clock read by
  \<^verbatim>\<open>new Date()\<close> at the freshness check, the outcome of the \<^verbatim>\<open>fetch\<close> (rejected with a
  message, or a response whose \<^verbatim>\<open>json()\<close> gives the parsed body), the clock read by
  \<^verbatim>\<open>Date.now()\<close> once the body is parsed, and the host's reading of strings as
  numbers.
\<close>

record token_env =
  check_time :: int
  token_fetch :: "string + jsval response"
  acquire_time :: int
  string_to_number :: "string \<Rightarrow> number"

definition token_request :: "client \<Rightarrow> http_request" where
  "token_request c = \<lparr>
     url = baseUrl c @ ''/oauth/token'',
     query = [],
     http_method = ''POST'',
     headers = [(''Content-Type'', ''application/x-www-form-urlencoded'')],
     req_body = Some (FormBody [(''grant_type'', ''client_credentials''),
                                (''client_id'', clientId c),
                                (''client_secret'', clientSecret c)]),
     req_timeout = timeout c \<rparr>"

text \<open>The freshness check of line 45.\<close>

definition cache_valid :: "client \<Rightarrow> int \<Rightarrow> bool" where
  "cache_valid c now =
     (truthy (token c) \<and> (case tokenExpiry c of None \<Rightarrow> False | Some d \<Rightarrow> before now d))"

text \<open>\<^verbatim>\<open>data.expires_in || 3600\<close>.\<close>

definition expiresIn :: "jsval \<Rightarrow> jsval" where
  "expiresIn e = (if truthy e then e else JNum 3600)"

text \<open>
  The body of the \<^verbatim>\<open>try\<close> block once \<^verbatim>\<open>fetch\<close> has resolved, statement by statement:
  what it throws or returns, and the client it leaves. Line 71 assigns the token before
  line 75 multiplies \<^verbatim>\<open>expiresIn\<close> by 1000, which converts it to a number and may
  throw.
\<close>

definition acquire :: "client \<Rightarrow> jsval response \<Rightarrow> (string \<Rightarrow> number) \<Rightarrow> int \<Rightarrow> (js_error + jsval) \<times> client" where
  "acquire c r s2n now =
     (if \<not> ok r then
        (Inl (Error (''Authentication failed: '' @ string_of_nat (status r) @ '' ''
                     @ statusText r)), c)
      else case json_body r of
        Inl msg \<Rightarrow> (Inl (Error msg), c)
      | Inr data \<Rightarrow>
          (case get_prop data ''access_token'' of
             Inl err \<Rightarrow> (Inl err, c)
           | Inr tok \<Rightarrow>
               (case get_prop data ''expires_in'' of
                  Inl err \<Rightarrow> (Inl err, c\<lparr>token := tok\<rparr>)
                | Inr e \<Rightarrow>
                    (case to_number s2n (expiresIn e) of
                       Inl err \<Rightarrow> (Inl err, c\<lparr>token := tok\<rparr>)
                     | Inr n \<Rightarrow>
                         (Inr tok,
                          c\<lparr>token := tok,
                            tokenExpiry :=
                              Some (new_Date (num_plus (Finite now)
                                                (num_times n (Finite 1000))))\<rparr>)))))"

text \<open>
  \<^verbatim>\<open>_getToken\<close>: the result (the error thrown, or the token), the client afterwards, and
  the network calls made, in order. The \<^verbatim>\<open>catch\<close> block wraps the message of whatever
  the \<^verbatim>\<open>try\<close> block threw.
\<close>

definition getToken :: "client \<Rightarrow> token_env \<Rightarrow> (js_error + jsval) \<times> client \<times> http_request list" where
  "getToken c env =
     (if cache_valid c (check_time env) then (Inr (token c), c, [])
      else
        case (case token_fetch env of
                Inl msg \<Rightarrow> (Inl (Error msg), c)
              | Inr r \<Rightarrow> acquire c r (string_to_number env) (acquire_time env)) of
          (Inl err, c') \<Rightarrow>
            (Inl (Error (''Failed to get authentication token: '' @ message err)), c',
             [token_request c])
        | (Inr tok, c') \<Rightarrow> (Inr tok, c', [token_request c]))"

section \<open>Authenticated requests\<close>

text \<open>
  The options object of \<^verbatim>\<open>request\<close>: a property that is absent is \<open>None\<close>
  (\<open>JUndefined\<close> for \<^verbatim>\<open>data\<close>).
\<close>

record options =
  opt_method :: "string option"
  opt_params :: "(string \<times> string) list option"
  opt_data :: jsval
  opt_headers :: "(string \<times> string) list option"

text \<open>
  What the outside world supplies during one call of \<^verbatim>\<open>request\<close>: what \<^verbatim>\<open>_getToken\<close>
  needs, and the outcome of the \<^verbatim>\<open>fetch\<close> of the resource.
\<close>

record request_env =
  req_token_env :: token_env
  req_fetch :: "string + jsval response"

text \<open>
  The own properties of an object are enumerated with the array indices first, in
  ascending order, and then the other names in the order they were created. An array
  index is the decimal form, without leading zeros, of a number up to 4294967294.
\<close>

definition index_value :: "string \<Rightarrow> nat" where
  "index_value k = foldl (\<lambda>n c. 10 * n + (of_char c - 48)) 0 k"

definition is_array_index :: "string \<Rightarrow> bool" where
  "is_array_index k =
     (k \<noteq> [] \<and> list_all (\<lambda>c. c \<in> set ''0123456789'') k
      \<and> (k = ''0'' \<or> hd k \<noteq> CHR ''0'') \<and> index_value k \<le> 4294967294)"

definition own_properties :: "(string \<times> 'a) list \<Rightarrow> (string \<times> 'a) list" where
  "own_properties ps =
     sort_key (\<lambda>p. index_value (fst p)) (filter (\<lambda>p. is_array_index (fst p)) ps)
     @ filter (\<lambda>p. \<not> is_array_index (fst p)) ps"

text \<open>
  Object spread \<^verbatim>\<open>{...obj, ...props}\<close>: each property of \<open>props\<close>, in order, replaces
  the value of the same key or is created after the others.
\<close>

definition spread :: "(string \<times> string) list \<Rightarrow> (string \<times> string) list \<Rightarrow> (string \<times> string) list" where
  "spread obj props = own_properties (fold (\<lambda>(k, v). AList.update k v) props obj)"

definition default_headers :: "jsval \<Rightarrow> (string \<times> string) list" where
  "default_headers tok =
     [(''Authorization'', ''Bearer '' @ toString tok), (''Content-Type'', ''application/json'')]"

definition resource_request :: "client \<Rightarrow> jsval \<Rightarrow> string \<Rightarrow> options \<Rightarrow> http_request" where
  "resource_request c tok endpoint opts =
     (let method = (if falsy_str (opt_method opts) then ''GET'' else the (opt_method opts));
          params = (case opt_params opts of None \<Rightarrow> [] | Some ps \<Rightarrow> ps);
          data = (if truthy (opt_data opts) then opt_data opts else JNull);
          hdrs = (case opt_headers opts of None \<Rightarrow> [] | Some hs \<Rightarrow> hs)
      in \<lparr>
        url = baseUrl c @ (if startsWith endpoint ''/'' then endpoint else ''/'' @ endpoint),
        query = params,
        http_method = method,
        headers = spread (default_headers tok) hdrs,
        req_body = (if method \<noteq> ''GET'' \<and> truthy data then Some (JsonBody data) else None),
        req_timeout = timeout c \<rparr>)"

text \<open>
  Lines 137 to 143: the body is decoded as JSON when the content type header is present
  and contains \<^verbatim>\<open>application/json\<close>, and read as text otherwise.
\<close>

definition is_json :: "'j response \<Rightarrow> bool" where
  "is_json r =
     (case content_type r of None \<Rightarrow> False
      | Some ct \<Rightarrow> ct \<noteq> [] \<and> str_includes ct ''application/json'')"

definition responseData :: "jsval response \<Rightarrow> string + jsval" where
  "responseData r =
     (if is_json r then json_body r
      else case text_body r of Inl msg \<Rightarrow> Inl msg | Inr s \<Rightarrow> Inr (JStr s))"

text \<open>
  The body of the \<^verbatim>\<open>try\<close> block of \<^verbatim>\<open>request\<close> once \<^verbatim>\<open>fetch\<close> has resolved: the error
  thrown inside it, or the value returned.
\<close>

definition receive :: "jsval response \<Rightarrow> js_error + jsval" where
  "receive r =
     (case responseData r of
        Inl msg \<Rightarrow> Inl (Error msg)
      | Inr v \<Rightarrow>
          if \<not> ok r then
            Inl (Error (''Request failed: '' @ string_of_nat (status r) @ '' '' @ statusText r))
          else Inr v)"

text \<open>
  \<^verbatim>\<open>request\<close>: the result, the client afterwards, and the network calls made, in order.
  The token is awaited outside the \<^verbatim>\<open>try\<close> block, so its error leaves as it is.
\<close>

definition request :: "client \<Rightarrow> string \<Rightarrow> options \<Rightarrow> request_env \<Rightarrow> (js_error + jsval) \<times> client \<times> http_request list" where
  "request c endpoint opts env =
     (case getToken c (req_token_env env) of
        (Inl err, c', calls) \<Rightarrow> (Inl err, c', calls)
      | (Inr tok, c', calls) \<Rightarrow>
          (case (case req_fetch env of Inl msg \<Rightarrow> Inl (Error msg) | Inr r \<Rightarrow> receive r) of
             Inl err \<Rightarrow>
               (Inl (Error (''API request failed: '' @ message err)), c',
                calls @ [resource_request c' tok endpoint opts])
           | Inr v \<Rightarrow> (Inr v, c', calls @ [resource_request c' tok endpoint opts])))"

text \<open>
  A sequence of operations on one client, each with what the outside world supplies
  during it.
\<close>

datatype operation = GetToken token_env | Request string options request_env





section \<open>The specification's words\<close>



section \<open>Example values\<close>

text \<open>
  A configuration with both credentials and the client built from it, a response with a
  given status line, content type and body, the body of a token grant with or without
  \<^verbatim>\<open>expires_in\<close>, and the environments of a call at a given time: the clock advances by
  a millisecond during the exchange, and the token endpoint grants \<^verbatim>\<open>abc\<close> for an hour
  unless said otherwise.
\<close>

definition ex_config :: config where
  "ex_config = \<lparr> cfg_clientId = Some ''id'', cfg_clientSecret = Some ''secret'',
     cfg_baseUrl = None, cfg_timeout = None, cfg_debug = None \<rparr>"

definition ex_client :: client where
  "ex_client = \<lparr> clientId = ''id'', clientSecret = ''secret'',
     baseUrl = ''https://api.orange-sonatel.com'', timeout = 10000, debug = False,
     token = JNull, tokenExpiry = None \<rparr>"

definition reply :: "nat \<Rightarrow> string \<Rightarrow> string option \<Rightarrow> string + 'j \<Rightarrow> string \<Rightarrow> 'j response" where
  "reply st txt ct j t = \<lparr> status = st, statusText = txt, content_type = ct,
     json_body = j, text_body = Inr t \<rparr>"

definition grant :: "jsval \<Rightarrow> jsval option \<Rightarrow> jsval" where
  "grant tok e =
     (case e of None \<Rightarrow> JObj [(''access_token'', tok)]
      | Some v \<Rightarrow> JObj [(''access_token'', tok), (''expires_in'', v)])"

definition granted :: "jsval \<Rightarrow> jsval option \<Rightarrow> string + jsval response" where
  "granted tok e = Inr (reply 200 ''OK'' (Some ''application/json'') (Inr (grant tok e)) [])"

definition token_at :: "int \<Rightarrow> string + jsval response \<Rightarrow> token_env" where
  "token_at t f = \<lparr> check_time = t, token_fetch = f, acquire_time = t + 1,
     string_to_number = (\<lambda>s. NaN) \<rparr>"

definition request_at :: "int \<Rightarrow> string + jsval response \<Rightarrow> request_env" where
  "request_at t f = \<lparr> req_token_env = token_at t (granted (JStr ''abc'') (Some (JNum 3600))),
     req_fetch = f \<rparr>"

definition ex_options :: options where
  "ex_options = \<lparr> opt_method = None, opt_params = None, opt_data = JUndefined,
     opt_headers = None \<rparr>"

lemmas ex_defs = ex_config_def ex_client_def reply_def grant_def granted_def token_at_def
  request_at_def ex_options_def

section \<open>Basic facts\<close>

lemma before_iff: "before now d \<longleftrightarrow> (\<exists>t. d = Date t \<and> now < t)"
  by (cases d) auto

lemma getToken_cached:
  "cache_valid c (check_time env) \<Longrightarrow> getToken c env = (Inr (token c), c, [])"
  by (simp add: getToken_def)

lemma getToken_calls:
  "\<not> cache_valid c (check_time env) \<Longrightarrow> snd (snd (getToken c env)) = [token_request c]"
  by (simp add: getToken_def split: sum.splits prod.splits)


lemma getToken_fetched:
  assumes "getToken c env = (Inr tok, c', calls)" and "calls \<noteq> []"
  shows "calls = [token_request c]"
    and "\<exists>r data e n. token_fetch env = Inr r \<and> ok r \<and> json_body r = Inr data
           \<and> get_prop data ''access_token'' = Inr tok \<and> get_prop data ''expires_in'' = Inr e
           \<and> to_number (string_to_number env) (expiresIn e) = Inr n
           \<and> c' = c\<lparr>token := tok,
                     tokenExpiry := Some (new_Date (num_plus (Finite (acquire_time env))
                                                     (num_times n (Finite 1000))))\<rparr>"
  using assms
  by (auto simp: getToken_def acquire_def split: if_splits sum.splits prod.splits)

lemma getToken_granted:
  assumes "\<not> cache_valid c (check_time env)" and "token_fetch env = Inr r" and "ok r"
    and "json_body r = Inr data" and "get_prop data ''access_token'' = Inr tok"
    and "get_prop data ''expires_in'' = Inr e"
    and "to_number (string_to_number env) (expiresIn e) = Inr n"
  shows "getToken c env =
           (Inr tok,
            c\<lparr>token := tok,
              tokenExpiry := Some (new_Date (num_plus (Finite (acquire_time env))
                                              (num_times n (Finite 1000))))\<rparr>,
            [token_request c])"
  using assms by (simp add: getToken_def acquire_def)






lemma request_token_failed:
  "getToken c (req_token_env env) = (Inl err, c', calls) \<Longrightarrow>
     request c ep opts env = (Inl err, c', calls)"
  by (simp add: request_def)










lemma startsWith_append: "startsWith (p @ s) p"
  by (induction p) simp_all


lemma token_at_sel:
  "check_time (token_at t f) = t" "token_fetch (token_at t f) = f"
  "acquire_time (token_at t f) = t + 1" "string_to_number (token_at t f) = (\<lambda>s. NaN)"
  by (simp_all add: token_at_def)

lemma ex_granted:
  "getToken ex_client (token_at t (granted tok (Some (JNum n)))) =
     (Inr tok,
      ex_client\<lparr>token := tok,
        tokenExpiry := Some (new_Date (Finite (t + 1 + (if n = 0 then 3600 else n) * 1000)))\<rparr>,
      [token_request ex_client])"
  by (simp add: getToken_def cache_valid_def acquire_def ok_def get_prop_def expiresIn_def
      ex_defs)


section \<open>The token cache\<close>

text \<open>
  Claim C1, as amended. The freshness check of line 45 asks for a truthy token. A client
  that holds a truthy cached token whose expiry is strictly after the clock read by the
  check gets that token back, unchanged and with no network call. A client without such
  a token makes exactly one call, the \<^verbatim>\<open>POST\<close> of the client credentials to
  \<^verbatim>\<open>/oauth/token\<close>. So when a first call had to fetch and was granted a truthy token, a
  second call made before the stored expiry makes none: the two calls together make one
  call to the token endpoint.
\<close>

theorem token_cache_reuse:
  "(truthy (token c) \<and> tokenExpiry c = Some (Date e) \<and> check_time env < e
      \<longrightarrow> getToken c env = (Inr (token c), c, []))
   \<and> (\<not> (truthy (token c') \<and> (\<exists>e'. tokenExpiry c' = Some (Date e') \<and> check_time env' < e'))
      \<longrightarrow> snd (snd (getToken c' env')) =
            [\<lparr> url = baseUrl c' @ ''/oauth/token'', query = [], http_method = ''POST'',
               headers = [(''Content-Type'', ''application/x-www-form-urlencoded'')],
               req_body = Some (FormBody [(''grant_type'', ''client_credentials''),
                                          (''client_id'', clientId c'),
                                          (''client_secret'', clientSecret c')]),
               req_timeout = timeout c' \<rparr>])
   \<and> (getToken c0 env1 = (Inr tok, c1, calls1) \<and> calls1 \<noteq> [] \<and> truthy tok
        \<and> tokenExpiry c1 = Some (Date x) \<and> check_time env2 < x
      \<longrightarrow> getToken c1 env2 = (Inr tok, c1, [])
          \<and> calls1 @ snd (snd (getToken c1 env2)) =
            [\<lparr> url = baseUrl c0 @ ''/oauth/token'', query = [], http_method = ''POST'',
               headers = [(''Content-Type'', ''application/x-www-form-urlencoded'')],
               req_body = Some (FormBody [(''grant_type'', ''client_credentials''),
                                          (''client_id'', clientId c0),
                                          (''client_secret'', clientSecret c0)]),
               req_timeout = timeout c0 \<rparr>])"
proof (intro conjI impI)
  assume "truthy (token c) \<and> tokenExpiry c = Some (Date e) \<and> check_time env < e"
  then have "cache_valid c (check_time env)" by (simp add: cache_valid_def)
  then show "getToken c env = (Inr (token c), c, [])" by (rule getToken_cached)
next
  assume "\<not> (truthy (token c') \<and> (\<exists>e'. tokenExpiry c' = Some (Date e') \<and> check_time env' < e'))"
  then have "\<not> cache_valid c' (check_time env')"
    by (auto simp: cache_valid_def before_iff split: option.splits)
  then have "snd (snd (getToken c' env')) = [token_request c']" by (rule getToken_calls)
  then show "snd (snd (getToken c' env')) =
            [\<lparr> url = baseUrl c' @ ''/oauth/token'', query = [], http_method = ''POST'',
               headers = [(''Content-Type'', ''application/x-www-form-urlencoded'')],
               req_body = Some (FormBody [(''grant_type'', ''client_credentials''),
                                          (''client_id'', clientId c'),
                                          (''client_secret'', clientSecret c')]),
               req_timeout = timeout c' \<rparr>]"
    by (simp add: token_request_def)
next
  assume h: "getToken c0 env1 = (Inr tok, c1, calls1) \<and> calls1 \<noteq> [] \<and> truthy tok
        \<and> tokenExpiry c1 = Some (Date x) \<and> check_time env2 < x"
  then have cs: "calls1 = [token_request c0]" using getToken_fetched(1) by blast
  from h have "token c1 = tok" using getToken_fetched(2) [of c0 env1 tok c1 calls1] by auto
  note t = this
  from h t have "cache_valid c1 (check_time env2)" by (simp add: cache_valid_def)
  then have g: "getToken c1 env2 = (Inr (token c1), c1, [])" by (rule getToken_cached)
  with t show "getToken c1 env2 = (Inr tok, c1, [])" by simp
  from g cs show "calls1 @ snd (snd (getToken c1 env2)) =
            [\<lparr> url = baseUrl c0 @ ''/oauth/token'', query = [], http_method = ''POST'',
               headers = [(''Content-Type'', ''application/x-www-form-urlencoded'')],
               req_body = Some (FormBody [(''grant_type'', ''client_credentials''),
                                          (''client_id'', clientId c0),
                                          (''client_secret'', clientSecret c0)]),
               req_timeout = timeout c0 \<rparr>]"
    by (simp add: token_request_def)
qed

text \<open>
  A token fetched at time 0 expires at 3600001. One millisecond before that it is
  reused, even with the network down; at 3600001 it is fetched again; and the first
  fetch followed by the reuse is one network call.
\<close>

theorem token_cache_reuse_witness:
  "getToken (ex_client\<lparr>token := JStr ''abc'', tokenExpiry := Some (Date 3600001)\<rparr>)
       (token_at 3600000 (Inl ''down''))
     = (Inr (JStr ''abc''),
        ex_client\<lparr>token := JStr ''abc'', tokenExpiry := Some (Date 3600001)\<rparr>, [])
   \<and> snd (snd (getToken (ex_client\<lparr>token := JStr ''abc'', tokenExpiry := Some (Date 3600001)\<rparr>)
        (token_at 3600001 (granted (JStr ''def'') None))))
     = [\<lparr> url = ''https://api.orange-sonatel.com/oauth/token'', query = [],
          http_method = ''POST'',
          headers = [(''Content-Type'', ''application/x-www-form-urlencoded'')],
          req_body = Some (FormBody [(''grant_type'', ''client_credentials''),
                                     (''client_id'', ''id''), (''client_secret'', ''secret'')]),
          req_timeout = 10000 \<rparr>]
   \<and> snd (snd (getToken ex_client (token_at 0 (granted (JStr ''abc'') (Some (JNum 3600))))))
      @ snd (snd (getToken
          (fst (snd (getToken ex_client (token_at 0 (granted (JStr ''abc'') (Some (JNum 3600)))))))
          (token_at 3600000 (Inl ''down''))))
     = [\<lparr> url = ''https://api.orange-sonatel.com/oauth/token'', query = [],
          http_method = ''POST'',
          headers = [(''Content-Type'', ''application/x-www-form-urlencoded'')],
          req_body = Some (FormBody [(''grant_type'', ''client_credentials''),
                                     (''client_id'', ''id''), (''client_secret'', ''secret'')]),
          req_timeout = 10000 \<rparr>]"
proof -
  let ?c = "ex_client\<lparr>token := JStr ''abc'', tokenExpiry := Some (Date 3600001)\<rparr>"
  have 1: "truthy (token ?c) \<and> tokenExpiry ?c = Some (Date 3600001)
           \<and> check_time (token_at 3600000 (Inl ''down'')) < 3600001"
    by (simp add: token_at_sel)
  have 2: "\<not> (truthy (token ?c) \<and> (\<exists>e'. tokenExpiry ?c = Some (Date e')
           \<and> check_time (token_at 3600001 (granted (JStr ''def'') None)) < e'))"
    by (simp add: token_at_sel)
  have g: "getToken ex_client (token_at 0 (granted (JStr ''abc'') (Some (JNum 3600))))
             = (Inr (JStr ''abc''), ?c, [token_request ex_client])"
    by (simp add: ex_granted)
  then have 3: "getToken ex_client (token_at 0 (granted (JStr ''abc'') (Some (JNum 3600))))
             = (Inr (JStr ''abc''), ?c, [token_request ex_client])
           \<and> [token_request ex_client] \<noteq> [] \<and> truthy (JStr ''abc'')
           \<and> tokenExpiry ?c = Some (Date 3600001)
           \<and> check_time (token_at 3600000 (Inl ''down'')) < 3600001"
    by (simp add: token_at_sel)
  from token_cache_reuse [where c = ?c and e = 3600001
      and env = "token_at 3600000 (Inl ''down'')"
      and c' = ?c and env' = "token_at 3600001 (granted (JStr ''def'') None)"
      and ?c0.0 = ex_client
      and ?env1.0 = "token_at 0 (granted (JStr ''abc'') (Some (JNum 3600)))"
      and tok = "JStr ''abc''" and ?c1.0 = ?c and ?calls1.0 = "[token_request ex_client]"
      and x = 3600001 and ?env2.0 = "token_at 3600000 (Inl ''down'')"] 1 2 3
  show ?thesis by (simp add: g) (simp add: ex_client_def)
qed

text \<open>
  The claim as it stands fails for a cached token that is falsy. The token endpoint
  grants the empty string for an hour; ten milliseconds later, well inside the expiry
  window, the second call goes to the token endpoint again.
\<close>

theorem falsy_token_counterexample:
  "getToken ex_client (token_at 0 (granted (JStr []) (Some (JNum 3600))))
     = (Inr (JStr []), ex_client\<lparr>token := JStr [], tokenExpiry := Some (Date 3600001)\<rparr>,
        [token_request ex_client])
   \<and> getToken (ex_client\<lparr>token := JStr [], tokenExpiry := Some (Date 3600001)\<rparr>)
        (token_at 10 (granted (JStr []) (Some (JNum 3600))))
     = (Inr (JStr []), ex_client\<lparr>token := JStr [], tokenExpiry := Some (Date 3600011)\<rparr>,
        [token_request ex_client])"
  by (simp add: getToken_def cache_valid_def acquire_def ok_def get_prop_def expiresIn_def
      token_request_def ex_defs)







text \<open>
  Claim C6, as amended. When \<^verbatim>\<open>_getToken\<close> fails because the \<^verbatim>\<open>fetch\<close> rejects (network
  failure, timeout), because the status is not a success, or because the body does not
  parse or is \<^verbatim>\<open>null\<close>, the client is what it was before the call: the token and its
  expiry are untouched.
\<close>

theorem failed_exchange_keeps_cache:
  assumes "\<not> cache_valid c (check_time env)"
    and "(\<exists>msg. token_fetch env = Inl msg)
       \<or> (\<exists>r. token_fetch env = Inr r \<and> \<not> ok r)
       \<or> (\<exists>r msg. token_fetch env = Inr r \<and> ok r \<and> json_body r = Inl msg)
       \<or> (\<exists>r. token_fetch env = Inr r \<and> ok r \<and> json_body r = Inr JNull)"
  shows "(\<exists>err. fst (getToken c env) = Inl err)
       \<and> fst (snd (getToken c env)) = c
       \<and> token (fst (snd (getToken c env))) = token c
       \<and> tokenExpiry (fst (snd (getToken c env))) = tokenExpiry c"
  using assms by (auto simp: getToken_def acquire_def get_prop_def)

text \<open>
An expired token survives a refresh that times out.
\<close>

theorem failed_exchange_keeps_cache_witness:
  "fst (getToken (ex_client\<lparr>token := JStr ''abc'', tokenExpiry := Some (Date 3600001)\<rparr>)
          (token_at 4000000 (Inl ''network timeout'')))
     = Inl (Error ''Failed to get authentication token: network timeout'')
   \<and> fst (snd (getToken (ex_client\<lparr>token := JStr ''abc'', tokenExpiry := Some (Date 3600001)\<rparr>)
          (token_at 4000000 (Inl ''network timeout''))))
     = ex_client\<lparr>token := JStr ''abc'', tokenExpiry := Some (Date 3600001)\<rparr>"
proof -
  let ?c = "ex_client\<lparr>token := JStr ''abc'', tokenExpiry := Some (Date 3600001)\<rparr>"
  let ?env = "token_at 4000000 (Inl ''network timeout'')"
  have 1: "\<not> cache_valid ?c (check_time ?env)" by (simp add: cache_valid_def token_at_sel)
  have 2: "(\<exists>msg. token_fetch ?env = Inl msg)
       \<or> (\<exists>r. token_fetch ?env = Inr r \<and> \<not> ok r)
       \<or> (\<exists>r msg. token_fetch ?env = Inr r \<and> ok r \<and> json_body r = Inl msg)
       \<or> (\<exists>r. token_fetch ?env = Inr r \<and> ok r \<and> json_body r = Inr JNull)"
    by (simp add: token_at_sel)
  have h: "fst (getToken ?c ?env)
             = Inl (Error ''Failed to get authentication token: network timeout'')"
    by (simp add: getToken_def cache_valid_def token_at_sel)
  from failed_exchange_keeps_cache [OF 1 2] h show ?thesis by simp
qed

text \<open>
  The claim as it stands fails for a failure after line 71. The token endpoint answers
  \<^verbatim>\<open>{access_token: tok2, expires_in: {valueOf: 1, toString: 1}}\<close>: the token is assigned,
  the multiplication of line 75 throws, and \<^verbatim>\<open>_getToken\<close> fails with the new token in
  the cache beside the old expiry.
\<close>

theorem partial_update_counterexample:
  "getToken (ex_client\<lparr>token := JStr ''abc'', tokenExpiry := Some (Date 3600001)\<rparr>)
     (token_at 4000000
        (granted (JStr ''tok2'') (Some (JObj [(''valueOf'', JNum 1), (''toString'', JNum 1)]))))
   = (Inl (Error ''Failed to get authentication token: Cannot convert object to primitive value''),
      ex_client\<lparr>token := JStr ''tok2'', tokenExpiry := Some (Date 3600001)\<rparr>,
      [token_request ex_client])"
  by (simp add: getToken_def cache_valid_def acquire_def ok_def get_prop_def expiresIn_def
      token_request_def ex_defs)

text \<open>
  Claim C10, as amended. When the token endpoint answers with a success status and a
  JSON body other than \<^verbatim>\<open>null\<close> whose \<^verbatim>\<open>access_token\<close> is missing or falsy, and whose
  \<^verbatim>\<open>expires_in\<close> can be converted to a number without throwing, \<^verbatim>\<open>_getToken\<close> raises
  nothing: it stores that value as the token, sets the expiry from the acquisition
  time, and returns the value.
\<close>

theorem falsy_token_stored:
  assumes "\<not> cache_valid c (check_time env)"
    and "token_fetch env = Inr r" and "ok r"
    and "json_body r = Inr data" and "data \<noteq> JNull" and "data \<noteq> JUndefined"
    and "get_prop data ''access_token'' = Inr tok" and "\<not> truthy tok"
    and "get_prop data ''expires_in'' = Inr e" and "\<not> conversion_throws e"
  shows "\<exists>n. to_number (string_to_number env) (expiresIn e) = Inr n
       \<and> getToken c env =
           (Inr tok,
            c\<lparr>token := tok,
              tokenExpiry := Some (new_Date (num_plus (Finite (acquire_time env))
                                              (num_times n (Finite 1000))))\<rparr>,
            [token_request c])"
proof -
  have "\<not> conversion_throws (expiresIn e)" using assms(10) by (simp add: expiresIn_def)
  then obtain n where n: "to_number (string_to_number env) (expiresIn e) = Inr n"
    by (cases "expiresIn e") auto
  from getToken_granted [OF assms(1,2,3,4,7,9) n] n show ?thesis by blast
qed

text \<open>
The body \<^verbatim>\<open>{}\<close>: \<^verbatim>\<open>undefined\<close> is stored and returned, for an hour.
\<close>

theorem falsy_token_stored_witness:
  "getToken ex_client (token_at 0 (Inr (reply 200 ''OK'' (Some ''application/json'')
       (Inr (JObj [])) ''{}''))) =
     (Inr JUndefined, ex_client\<lparr>token := JUndefined, tokenExpiry := Some (Date 3600001)\<rparr>,
      [token_request ex_client])"
proof -
  let ?r = "reply 200 ''OK'' (Some ''application/json'') (Inr (JObj [])) ''{}'' :: jsval response"
  let ?env = "token_at 0 (Inr ?r)"
  have 1: "\<not> cache_valid ex_client (check_time ?env)"
    by (simp add: cache_valid_def ex_client_def)
  have 2: "token_fetch ?env = Inr ?r" by (simp add: token_at_sel)
  have 3: "ok ?r" by (simp add: ok_def reply_def)
  have 4: "json_body ?r = Inr (JObj [])" by (simp add: reply_def)
  have 5: "JObj [] \<noteq> JNull" "JObj [] \<noteq> JUndefined" by simp_all
  have 6: "get_prop (JObj []) ''access_token'' = Inr JUndefined"
          "get_prop (JObj []) ''expires_in'' = Inr JUndefined"
    by (simp_all add: get_prop_def)
  have 7: "\<not> truthy JUndefined" "\<not> conversion_throws JUndefined" by simp_all
  from falsy_token_stored [OF 1 2 3 4 5 6(1) 7(1) 6(2) 7(2)] show ?thesis
    by (auto simp: expiresIn_def token_at_sel)
qed

text \<open>
  The claim as it stands fails for the body \<^verbatim>\<open>null\<close>, which has no \<^verbatim>\<open>access_token\<close>
  either: reading the property throws, and \<^verbatim>\<open>_getToken\<close> fails. It fails as well for
  the body \<^verbatim>\<open>{expires_in: {toString: 1}}\<close>, where the multiplication of line 75 throws.
\<close>

theorem null_body_counterexample:
  "ok (reply 200 ''OK'' (Some ''application/json'') (Inr JNull) ''null'')
   \<and> fst (getToken ex_client
        (token_at 0 (Inr (reply 200 ''OK'' (Some ''application/json'') (Inr JNull) ''null''))))
     = Inl (Error (''Failed to get authentication token: ''
                   @ ''Cannot read properties of null (reading 'access_token')''))
   \<and> get_prop (JObj [(''expires_in'', JObj [(''toString'', JNum 1)])]) ''access_token''
     = Inr JUndefined
   \<and> fst (getToken ex_client
        (token_at 0 (Inr (reply 200 ''OK'' (Some ''application/json'')
           (Inr (JObj [(''expires_in'', JObj [(''toString'', JNum 1)])])) []))))
     = Inl (Error (''Failed to get authentication token: ''
                   @ ''Cannot convert object to primitive value''))"
  by (simp add: getToken_def cache_valid_def acquire_def ok_def get_prop_def expiresIn_def
      ex_defs)

section \<open>Construction\<close>

text \<open>
  Claim C7. A configuration whose \<^verbatim>\<open>clientId\<close> or \<^verbatim>\<open>clientSecret\<close> is absent or empty
  is rejected by the constructor with the configuration error. The constructor is a
  function of the configuration alone: it throws before anything else happens, and
  nothing in it reaches the network.
\<close>

theorem missing_credentials_rejected:
  "cfg_clientId cfg = None \<or> cfg_clientId cfg = Some [] \<or>
   cfg_clientSecret cfg = None \<or> cfg_clientSecret cfg = Some [] \<Longrightarrow>
     \<exists>err. SonatelAPI_constructor cfg = Inl err \<and> is_ConfigurationError err"
  by (auto simp: SonatelAPI_constructor_def falsy_str_def is_ConfigurationError_def)

text \<open>
An empty secret is rejected; the example configuration builds the example client.
\<close>

theorem missing_credentials_rejected_witness:
  "cfg_clientSecret (ex_config\<lparr>cfg_clientSecret := Some []\<rparr>) = Some []
   \<and> (\<exists>err. SonatelAPI_constructor (ex_config\<lparr>cfg_clientSecret := Some []\<rparr>) = Inl err
          \<and> is_ConfigurationError err)
   \<and> SonatelAPI_constructor ex_config = Inr ex_client"
proof -
  have h: "cfg_clientSecret (ex_config\<lparr>cfg_clientSecret := Some []\<rparr>) = Some []" by simp
  then have "cfg_clientId (ex_config\<lparr>cfg_clientSecret := Some []\<rparr>) = None
      \<or> cfg_clientId (ex_config\<lparr>cfg_clientSecret := Some []\<rparr>) = Some []
      \<or> cfg_clientSecret (ex_config\<lparr>cfg_clientSecret := Some []\<rparr>) = None
      \<or> cfg_clientSecret (ex_config\<lparr>cfg_clientSecret := Some []\<rparr>) = Some []" by simp
  from missing_credentials_rejected [OF this] h show ?thesis
    by (simp add: SonatelAPI_constructor_def falsy_str_def ex_defs)
qed

section \<open>Failures of the token exchange\<close>

text \<open>
  Claim C4. When the client has no valid cached token and the token exchange fails,
  because the \<^verbatim>\<open>fetch\<close> rejects, because the status is not a success, or because the
  body cannot be parsed, \<^verbatim>\<open>_getToken\<close> fails with the authentication error, whose
  message carries the upstream message or the status code and text. Exactly one call
  was made: there is no retry. Inside \<^verbatim>\<open>request\<close> the same error reaches the caller
  as it is, not wrapped as a request failure, and no resource call is made.
\<close>

theorem acquisition_failure_reported:
  assumes "\<not> cache_valid c (check_time (req_token_env env))"
    and "token_fetch (req_token_env env) = Inl msg \<and> reason = msg
       \<or> (\<exists>r. token_fetch (req_token_env env) = Inr r \<and> \<not> ok r
              \<and> reason = ''Authentication failed: '' @ string_of_nat (status r)
                          @ '' '' @ statusText r)
       \<or> (\<exists>r. token_fetch (req_token_env env) = Inr r \<and> ok r \<and> json_body r = Inl msg
              \<and> reason = msg)"
  shows "getToken c (req_token_env env) =
           (Inl (Error (''Failed to get authentication token: '' @ reason)), c,
            [token_request c])
       \<and> is_AuthenticationError (Error (''Failed to get authentication token: '' @ reason))
       \<and> \<not> is_request_failure (Error (''Failed to get authentication token: '' @ reason))
       \<and> request c ep opts env =
           (Inl (Error (''Failed to get authentication token: '' @ reason)), c,
            [token_request c])"
proof -
  have g: "getToken c (req_token_env env) =
           (Inl (Error (''Failed to get authentication token: '' @ reason)), c,
            [token_request c])"
    using assms by (auto simp: getToken_def acquire_def)
  moreover have
    "is_AuthenticationError (Error (''Failed to get authentication token: '' @ reason))"
    by (simp add: is_AuthenticationError_def startsWith_append)
  moreover have
    "\<not> is_request_failure (Error (''Failed to get authentication token: '' @ reason))"
    by (simp add: is_request_failure_def)
  moreover note request_token_failed [OF g]
  ultimately show ?thesis by simp
qed

text \<open>
The token endpoint answers 401 to a request made by the example client.
\<close>

theorem acquisition_failure_reported_witness:
  "request ex_client ''/sms/v1/messages'' ex_options
     \<lparr> req_token_env = token_at 0 (Inr (reply 401 ''Unauthorized'' None (Inl ''no body'') [])),
       req_fetch = Inl ''unused'' \<rparr>
   = (Inl (Error ''Failed to get authentication token: Authentication failed: 401 Unauthorized''),
      ex_client, [token_request ex_client])"
proof -
  let ?r = "reply 401 ''Unauthorized'' None (Inl ''no body'') [] :: jsval response"
  let ?env = "\<lparr> req_token_env = token_at 0 (Inr ?r), req_fetch = Inl ''unused'' \<rparr>"
  have 1: "\<not> cache_valid ex_client (check_time (req_token_env ?env))"
    by (simp add: cache_valid_def ex_defs)
  have 2: "token_fetch (req_token_env ?env) = Inl ''no body''
             \<and> ''Authentication failed: 401 Unauthorized'' = ''no body''
       \<or> (\<exists>r. token_fetch (req_token_env ?env) = Inr r \<and> \<not> ok r
              \<and> ''Authentication failed: 401 Unauthorized''
                  = ''Authentication failed: '' @ string_of_nat (status r)
                    @ '' '' @ statusText r)
       \<or> (\<exists>r. token_fetch (req_token_env ?env) = Inr r \<and> ok r
              \<and> json_body r = Inl ''no body''
              \<and> ''Authentication failed: 401 Unauthorized'' = ''no body'')"
    by (simp add: ok_def ex_defs string_of_nat.simps)
  from acquisition_failure_reported [OF 1 2, of "''/sms/v1/messages''" ex_options]
  show ?thesis by simp
qed

section \<open>The outgoing request\<close>



section \<open>The response\<close>

text \<open>
  Claim C3: a response whose status is outside the success range makes \<^verbatim>\<open>request\<close>
  fail with an error that carries the status code and the status text, also when the
  body was decoded, and the decoded body is never returned. The client breaks it when
  the body does not decode. \<^verbatim>\<open>request\<close> builds the error with the status code and the
  status text for every response that is not \<^verbatim>\<open>ok\<close>, but only after it has read the
  body: a 500 that announces JSON and carries an empty body is reported with the
  parser's message, and neither the status code nor the status text is in it. With a
  body that decodes, the same status is reported as the claim says, and \<^verbatim>\<open>_getToken\<close>,
  which tests \<^verbatim>\<open>response.ok\<close> before it reads the body, reports the status of the
  very same response.
\<close>

theorem failing_status_not_reported:
  "\<not> ok (reply 500 ''Internal Server Error'' (Some ''application/json'')
          (Inl ''Unexpected end of JSON input'') [])
   \<and> fst (request ex_client ''/sms/v1/messages'' ex_options
        (request_at 0 (Inr (reply 500 ''Internal Server Error'' (Some ''application/json'')
          (Inl ''Unexpected end of JSON input'') []))))
     = Inl (Error ''API request failed: Unexpected end of JSON input'')
   \<and> \<not> str_includes ''API request failed: Unexpected end of JSON input'' (string_of_nat 500)
   \<and> \<not> str_includes ''API request failed: Unexpected end of JSON input''
          ''Internal Server Error''
   \<and> fst (request ex_client ''/sms/v1/messages'' ex_options
        (request_at 0 (Inr (reply 500 ''Internal Server Error'' (Some ''application/json'')
          (Inr (JObj [])) ''{}''))))
     = Inl (Error ''API request failed: Request failed: 500 Internal Server Error'')
   \<and> fst (getToken ex_client
        (token_at 0 (Inr (reply 500 ''Internal Server Error'' (Some ''application/json'')
          (Inl ''Unexpected end of JSON input'') []))))
     = Inl (Error (''Failed to get authentication token: ''
                   @ ''Authentication failed: 500 Internal Server Error''))"
  by (simp add: request_def getToken_def cache_valid_def acquire_def ok_def get_prop_def
      expiresIn_def receive_def responseData_def is_json_def ex_defs string_of_nat.simps)



end
